theory Spec2Isabelle
  imports Main
begin

section \<open>Collaborators outside the package\<close>

subsection \<open>Operating system and observable effects\<close>

text \<open>
  Everything the package does to the outside is recorded as an event: the \<open>os.Stat\<close>
  probe, \<open>os.MkdirAll\<close> with its permission bits, \<open>a.Errorf\<close> (marks the running task
  failed and goes on), and \<open>cmd.Exec\<close> with the command line it is given.
\<close>

datatype event =
    Stat string
  | MkdirAll string nat
  | Errorf string
  | Exec string

text \<open>
  The file system answers each call with an error (its message) or with none.
\<close>

record world =
  stat_err :: "string \<Rightarrow> string option"
  mkdirAll_err :: "string \<Rightarrow> nat \<Rightarrow> string option"

subsection \<open>\<open>strings.Join\<close> and \<open>filepath.Join\<close>\<close>

fun strings_Join :: "string list \<Rightarrow> string \<Rightarrow> string" where
  "strings_Join [] sep = []"
| "strings_Join [x] sep = x"
| "strings_Join (x # y # ys) sep = x @ sep @ strings_Join (y # ys) sep"

text \<open>
  \<open>filepath.Clean\<close> on a target whose separator is the slash and that has no volume
  names. The output buffer is \<open>out\<close> (its write index is \<open>length out\<close>), \<open>dotdot\<close> is the
  index where backtracking for a \<open>..\<close> element must stop.
\<close>

function backtrack :: "string \<Rightarrow> nat \<Rightarrow> nat \<Rightarrow> nat" where
  "backtrack buf dotdot w =
     (if w > dotdot \<and> buf ! w \<noteq> CHR ''/'' then backtrack buf dotdot (w - 1) else w)"
  by pat_completeness auto
termination
  by (relation "measure (\<lambda>(buf, dotdot, w). w)") auto

declare backtrack.simps [simp del]

function clean_loop :: "bool \<Rightarrow> string \<Rightarrow> string \<Rightarrow> nat \<Rightarrow> string" where
  "clean_loop rooted [] out dotdot = out"
| "clean_loop rooted (c # cs) out dotdot =
     (if c = CHR ''/'' then clean_loop rooted cs out dotdot
      else if c = CHR ''.'' \<and> (cs = [] \<or> take 1 cs = ''/'') then
        clean_loop rooted cs out dotdot
      else if c = CHR ''.'' \<and> take 1 cs = ''.'' \<and> (drop 1 cs = [] \<or> take 1 (drop 1 cs) = ''/'') then
        (if length out > dotdot then
           clean_loop rooted (drop 1 cs) (take (backtrack out dotdot (length out - 1)) out) dotdot
         else if \<not> rooted then
           (let out' = (if length out > 0 then out @ ''/'' else out) @ ''..''
            in clean_loop rooted (drop 1 cs) out' (length out'))
         else clean_loop rooted (drop 1 cs) out dotdot)
      else
        clean_loop rooted (dropWhile (\<lambda>x. x \<noteq> CHR ''/'') (c # cs))
          ((if rooted \<and> length out \<noteq> 1 \<or> \<not> rooted \<and> length out \<noteq> 0 then out @ ''/'' else out)
             @ takeWhile (\<lambda>x. x \<noteq> CHR ''/'') (c # cs))
          dotdot)"
  by pat_completeness auto
termination
proof (relation "measure (\<lambda>(rooted, p, out, dotdot). length p)")
  show "wf (measure (\<lambda>(rooted, p, out, dotdot). length p))" by simp
next
  fix rooted :: bool and c :: char and cs out :: string and dotdot :: nat
  assume "c \<noteq> CHR ''/''"
  then have "length (dropWhile (\<lambda>x. x \<noteq> CHR ''/'') (c # cs)) \<le> length cs"
    by (simp add: length_dropWhile_le)
  then show "((rooted, dropWhile (\<lambda>x. x \<noteq> CHR ''/'') (c # cs),
          (if rooted \<and> length out \<noteq> 1 \<or> \<not> rooted \<and> length out \<noteq> 0 then out @ ''/'' else out)
             @ takeWhile (\<lambda>x. x \<noteq> CHR ''/'') (c # cs), dotdot),
         (rooted, c # cs, out, dotdot))
        \<in> measure (\<lambda>(rooted, p, out, dotdot). length p)"
    by simp
qed auto

definition filepath_Clean :: "string \<Rightarrow> string" where
  "filepath_Clean path =
     (if path = [] then ''.''
      else
        (let rooted = (take 1 path = ''/'');
             out = (if rooted then clean_loop True (drop 1 path) ''/'' 1
                    else clean_loop False path [] 0)
         in if out = [] then ''.'' else out))"

text \<open>
  \<open>filepath.Join\<close>: leading empty elements are dropped, the rest is joined with the
  separator and cleaned; with no non-empty element the result is the empty string.
\<close>

fun filepath_Join :: "string list \<Rightarrow> string" where
  "filepath_Join [] = []"
| "filepath_Join (e # es) =
     (if e \<noteq> [] then filepath_Clean (strings_Join (e # es) ''/'') else filepath_Join es)"

subsection \<open>The task runner\<close>

text \<open>
  An action is the body of a task: run in a world, it produces its events in order.
  \<open>goyek.Task\<close> has the five fields used by the package; a missing \<open>Action\<close> is
  \<open>None\<close>, a missing \<open>Parallel\<close> is \<open>False\<close>, missing \<open>Deps\<close> are empty. A defined task
  is referred to by its name, which the runner keeps unique.
\<close>

type_synonym action = "world \<Rightarrow> event list"

record task =
  Name :: string
  Usage :: string
  Parallel :: bool
  Action :: "action option"
  Deps :: "string list"

text \<open>
  The state of the process: the registry of the runner's default flow in definition
  order, the three dependency buckets \<open>formatTasks\<close>, \<open>lintTasks\<close> and
  \<open>generateTasks\<close> (package-level variables declared outside \<open>standard.go\<close>, ordered
  collections of task references), and the file-system calls made so far. In the
  initial state nothing is defined, the buckets are empty and no call has been made.
\<close>

record runner =
  tasks :: "task list"
  formatTasks :: "string list"
  lintTasks :: "string list"
  generateTasks :: "string list"
  syscalls :: "event list"

definition initial :: runner where
  "initial = \<lparr>tasks = [], formatTasks = [], lintTasks = [], generateTasks = [], syscalls = []\<rparr>"

datatype panic =
    EmptyName
  | AlreadyDefined string
  | DepNotDefined string

definition and_then :: "panic + 'a \<Rightarrow> ('a \<Rightarrow> panic + 'b) \<Rightarrow> panic + 'b" where
  "and_then m f = (case m of Inl e \<Rightarrow> Inl e | Inr x \<Rightarrow> f x)"

definition isDefined :: "string \<Rightarrow> runner \<Rightarrow> bool" where
  "isDefined n s = (n \<in> set (map Name (tasks s)))"

text \<open>
  \<open>goyek.Define\<close> panics on an empty name, on a name that is already defined and on
  a dependency that is not defined; otherwise it records the task and returns its
  reference.
\<close>

definition Define :: "task \<Rightarrow> runner \<Rightarrow> panic + (string \<times> runner)" where
  "Define t s =
     (if Name t = [] then Inl EmptyName
      else if isDefined (Name t) s then Inl (AlreadyDefined (Name t))
      else
        (case filter (\<lambda>d. \<not> isDefined d s) (Deps t) of
           d # ds \<Rightarrow> Inl (DepNotDefined d)
         | [] \<Rightarrow> Inr (Name t, s\<lparr>tasks := tasks s @ [t]\<rparr>)))"

definition os_Stat :: "world \<Rightarrow> string \<Rightarrow> runner \<Rightarrow> string option \<times> runner" where
  "os_Stat w p s = (stat_err w p, s\<lparr>syscalls := syscalls s @ [Stat p]\<rparr>)"

section \<open>The package\<close>

subsection \<open>Parts of the package kept in other files\<close>

text \<open>
  The pinned tool versions \<open>verGolangCILint\<close>, \<open>verGoPrettier\<close> and \<open>verGoYamllint\<close>
  are constants of the package; they are taken as parameters.
\<close>

record versions =
  verGolangCILint :: string
  verGoPrettier :: string
  verGoYamllint :: string

text \<open>
  Modelled from the spec: \<open>RegisterFormatTask\<close> is not in \<open>standard.go\<close>. The
  registered task reference is appended to the bucket matching its family, here the
  format bucket.
\<close>

definition RegisterFormatTask :: "string \<Rightarrow> runner \<Rightarrow> runner" where
  "RegisterFormatTask d s = s\<lparr>formatTasks := formatTasks s @ [d]\<rparr>"

text \<open>
  Modelled from the spec: \<open>RegisterLintTask\<close> is not in \<open>standard.go\<close>. The registered
  task reference is appended to the bucket matching its family, here the lint bucket.
\<close>

definition RegisterLintTask :: "string \<Rightarrow> runner \<Rightarrow> runner" where
  "RegisterLintTask d s = s\<lparr>lintTasks := lintTasks s @ [d]\<rparr>"

subsection \<open>Configuration and options\<close>

record config =
  artifactsPath :: string
  excludeTasks :: "string list"

definition excluded :: "config \<Rightarrow> string \<Rightarrow> bool" where
  "excluded c t = (t \<in> set (excludeTasks c))"

text \<open>
  \<open>Option\<close> is an interface with the unexported method \<open>apply\<close>; its two
  implementations are built by \<open>ArtifactsPath\<close> and \<open>ExcludeTasks\<close>. An option is one
  of these two; the nil interface value is not an option of the model.
\<close>

datatype Option =
    ArtifactsPath string
  | ExcludeTasks "string list"

fun apply_opt :: "Option \<Rightarrow> config \<Rightarrow> config" where
  "apply_opt (ArtifactsPath a) c = c\<lparr>artifactsPath := a\<rparr>"
| "apply_opt (ExcludeTasks ts) c = c\<lparr>excludeTasks := excludeTasks c @ ts\<rparr>"

text \<open>Lines 16 to 21: the default configuration, then every option in order.\<close>

definition resolveConfig :: "Option list \<Rightarrow> config" where
  "resolveConfig opts =
     foldl (\<lambda>c opt. apply_opt opt c) \<lparr>artifactsPath = ''out'', excludeTasks = []\<rparr> opts"

subsection \<open>The task catalog\<close>

text \<open>The single-quote character of the glob arguments.\<close>

definition sq :: string where
  "sq = [CHR 0x27]"

text \<open>Lines 23 to 28: the Go targets, from the error of the probe.\<close>

definition golangciTargets :: "string option \<Rightarrow> string list" where
  "golangciTargets err = (if err = None then [''./...''] @ [''./build''] else [''./...''])"

definition task_format_go :: "versions \<Rightarrow> string list \<Rightarrow> task" where
  "task_format_go v targets =
     \<lparr>Name = ''format-go'', Usage = ''Formats Go code.'', Parallel = True,
      Action = Some (\<lambda>a. [Exec (''go run github.com/golangci/golangci-lint/cmd/golangci-lint@''
          @ verGolangCILint v @ '' run --fix --timeout=20m '' @ strings_Join targets '' '')]),
      Deps = []\<rparr>"

definition task_lint_go :: "versions \<Rightarrow> string list \<Rightarrow> task" where
  "task_lint_go v targets =
     \<lparr>Name = ''lint-go'', Usage = ''Lints Go code.'', Parallel = True,
      Action = Some (\<lambda>a. [Exec (''go run github.com/golangci/golangci-lint/cmd/golangci-lint@''
          @ verGolangCILint v @ '' run --timeout=20m '' @ strings_Join targets '' '')]),
      Deps = []\<rparr>"

definition task_format_markdown :: "versions \<Rightarrow> task" where
  "task_format_markdown v =
     \<lparr>Name = ''format-markdown'', Usage = ''Formats Markdown code.'', Parallel = True,
      Action = Some (\<lambda>a. [Exec (''go run github.com/wasilibs/go-prettier/cmd/prettier@''
          @ verGoPrettier v @ '' --no-error-on-unmatched-pattern --write ''
          @ sq @ ''**/*.md'' @ sq)]),
      Deps = []\<rparr>"

definition task_lint_markdown :: "versions \<Rightarrow> task" where
  "task_lint_markdown v =
     \<lparr>Name = ''lint-markdown'', Usage = ''Lints Markdown code.'', Parallel = True,
      Action = Some (\<lambda>a. [Exec (''go run github.com/wasilibs/go-prettier/cmd/prettier@''
          @ verGoPrettier v @ '' --no-error-on-unmatched-pattern --check ''
          @ sq @ ''**/*.md'' @ sq)]),
      Deps = []\<rparr>"

definition task_format_yaml :: "versions \<Rightarrow> task" where
  "task_format_yaml v =
     \<lparr>Name = ''format-yaml'', Usage = ''Formats YAML code.'', Parallel = True,
      Action = Some (\<lambda>a. [Exec (''go run github.com/wasilibs/go-prettier/cmd/prettier@''
          @ verGoPrettier v @ '' --no-error-on-unmatched-pattern --write ''
          @ sq @ ''**/*.yaml'' @ sq @ '' '' @ sq @ ''**/*.yml'' @ sq)]),
      Deps = []\<rparr>"

definition task_lint_yaml :: "versions \<Rightarrow> task" where
  "task_lint_yaml v =
     \<lparr>Name = ''lint-yaml'', Usage = ''Lints YAML code.'', Parallel = True,
      Action = Some (\<lambda>a.
        [Exec (''go run github.com/wasilibs/go-prettier/cmd/prettier@''
          @ verGoPrettier v @ '' --no-error-on-unmatched-pattern --check ''
          @ sq @ ''**/*.yaml'' @ sq @ '' '' @ sq @ ''**/*.yml'' @ sq)]
        @ [Exec (''go run github.com/wasilibs/go-yamllint/cmd/yamllint@''
          @ verGoYamllint v @ '' .'')]),
      Deps = []\<rparr>"

definition task_format :: "string list \<Rightarrow> task" where
  "task_format deps =
     \<lparr>Name = ''format'', Usage = ''Format code in various languages.'', Parallel = False,
      Action = None, Deps = deps\<rparr>"

definition task_lint :: "string list \<Rightarrow> task" where
  "task_lint deps =
     \<lparr>Name = ''lint'', Usage = ''Lints code in various languages.'', Parallel = False,
      Action = None, Deps = deps\<rparr>"

definition task_generate :: "string list \<Rightarrow> task" where
  "task_generate deps =
     \<lparr>Name = ''generate'', Usage = ''Generates code.'', Parallel = False,
      Action = None, Deps = deps\<rparr>"

text \<open>
  Lines 118 to 124: the action of \<open>test\<close>. The permission bits \<open>0o755\<close> are 493.
\<close>

definition test_action :: "config \<Rightarrow> action" where
  "test_action conf a =
     (case mkdirAll_err a (artifactsPath conf) 493 of
        Some err \<Rightarrow>
          [MkdirAll (artifactsPath conf) 493,
           Errorf (''failed to create out directory: '' @ err)]
      | None \<Rightarrow>
          [MkdirAll (artifactsPath conf) 493,
           Exec (''go test -coverprofile='' @ filepath_Join [artifactsPath conf, ''coverage.txt'']
             @ '' -covermode=atomic -v -timeout=20m ./...'')])"

definition task_test :: "config \<Rightarrow> task" where
  "task_test conf =
     \<lparr>Name = ''test'', Usage = ''Runs unit tests.'', Parallel = False,
      Action = Some (test_action conf), Deps = []\<rparr>"

definition task_check :: "string \<Rightarrow> string \<Rightarrow> task" where
  "task_check lint test =
     \<lparr>Name = ''check'', Usage = ''Runs all checks.'', Parallel = False,
      Action = None, Deps = [lint, test]\<rparr>"

subsection \<open>\<open>DefineTasks\<close>\<close>

text \<open>
  Each of the six guarded statements of lines 30 to 95 has the same shape: unless the
  name is excluded, define the task and hand its reference to the register function.
\<close>

definition unless_excluded ::
  "config \<Rightarrow> string \<Rightarrow> (string \<Rightarrow> runner \<Rightarrow> runner) \<Rightarrow> task \<Rightarrow> runner \<Rightarrow> panic + runner" where
  "unless_excluded conf name register t s =
     (if \<not> excluded conf name
      then and_then (Define t s) (\<lambda>(d, s'). Inr (register d s'))
      else Inr s)"

text \<open>
  Lines 23 to 131, for the resolved configuration: the probe, the six guarded leaf
  statements, then the five unconditional definitions. \<open>lint\<close> and \<open>test\<close> are the
  references that \<open>goyek.Define\<close> returned, used as the dependencies of \<open>check\<close>.
\<close>

definition DefineTasks_conf :: "world \<Rightarrow> versions \<Rightarrow> config \<Rightarrow> runner \<Rightarrow> panic + runner" where
  "DefineTasks_conf w v conf s0 =
     (let (err, s1) = os_Stat w (filepath_Join [''build'', ''go.mod'']) s0;
          targets = golangciTargets err
      in
        and_then (unless_excluded conf ''format-go'' RegisterFormatTask
                    (task_format_go v targets) s1) (\<lambda>s2.
        and_then (unless_excluded conf ''lint-go'' RegisterLintTask
                    (task_lint_go v targets) s2) (\<lambda>s3.
        and_then (unless_excluded conf ''format-markdown'' RegisterFormatTask
                    (task_format_markdown v) s3) (\<lambda>s4.
        and_then (unless_excluded conf ''lint-markdown'' RegisterLintTask
                    (task_lint_markdown v) s4) (\<lambda>s5.
        and_then (unless_excluded conf ''format-yaml'' RegisterFormatTask
                    (task_format_yaml v) s5) (\<lambda>s6.
        and_then (unless_excluded conf ''lint-yaml'' RegisterLintTask
                    (task_lint_yaml v) s6) (\<lambda>s7.
        and_then (Define (task_format (formatTasks s7)) s7) (\<lambda>(format, s8).
        and_then (Define (task_lint (lintTasks s8)) s8) (\<lambda>(lint, s9).
        and_then (Define (task_generate (generateTasks s9)) s9) (\<lambda>(generate, s10).
        and_then (Define (task_test conf) s10) (\<lambda>(test, s11).
        and_then (Define (task_check lint test) s11) (\<lambda>(check, s12).
        Inr s12))))))))))))"

text \<open>The entry point: resolve the configuration, then register.\<close>

definition DefineTasks :: "world \<Rightarrow> versions \<Rightarrow> Option list \<Rightarrow> runner \<Rightarrow> panic + runner" where
  "DefineTasks w v opts s0 = DefineTasks_conf w v (resolveConfig opts) s0"

section \<open>Vocabulary of the properties\<close>

text \<open>The catalog of leaf names by family, and the names of the five other tasks.\<close>

definition format_leaves :: "string list" where
  "format_leaves = [''format-go'', ''format-markdown'', ''format-yaml'']"

definition lint_leaves :: "string list" where
  "lint_leaves = [''lint-go'', ''lint-markdown'', ''lint-yaml'']"

definition catalog :: "string list" where
  "catalog = [''format-go'', ''lint-go'', ''format-markdown'', ''lint-markdown'',
              ''format-yaml'', ''lint-yaml'']"

definition meta_names :: "string list" where
  "meta_names = [''format'', ''lint'', ''generate'', ''test'', ''check'']"

definition leaf_tasks :: "versions \<Rightarrow> string list \<Rightarrow> task list" where
  "leaf_tasks v targets =
     [task_format_go v targets, task_lint_go v targets, task_format_markdown v,
      task_lint_markdown v, task_format_yaml v, task_lint_yaml v]"

definition kept :: "config \<Rightarrow> string list \<Rightarrow> string list" where
  "kept conf ns = filter (\<lambda>n. \<not> excluded conf n) ns"

text \<open>The task registered under a name, if any.\<close>

definition lookup :: "string \<Rightarrow> runner \<Rightarrow> task option" where
  "lookup n s = find (\<lambda>t. Name t = n) (tasks s)"

definition has_name :: "string \<Rightarrow> task list \<Rightarrow> bool" where
  "has_name m ts = (m \<in> set (map Name ts))"

text \<open>
  A starting state from which registration cannot panic: no leaf that will be
  defined and none of the five other names is taken, and every reference already in a
  bucket is a defined task.
\<close>

definition can_define :: "config \<Rightarrow> runner \<Rightarrow> bool" where
  "can_define conf s =
     (list_all (\<lambda>n. excluded conf n \<or> \<not> isDefined n s) (format_leaves @ lint_leaves)
      \<and> list_all (\<lambda>n. \<not> isDefined n s) meta_names
      \<and> list_all (\<lambda>d. isDefined d s) (formatTasks s @ lintTasks s @ generateTasks s))"

text \<open>The names an option excludes and the path it sets.\<close>

fun names_of :: "Option \<Rightarrow> string list" where
  "names_of (ExcludeTasks ts) = ts"
| "names_of (ArtifactsPath a) = []"

fun paths_of :: "Option \<Rightarrow> string list" where
  "paths_of (ArtifactsPath a) = [a]"
| "paths_of (ExcludeTasks ts) = []"

text \<open>An option with the names \<open>us\<close> taken out of its exclusions.\<close>

fun without :: "string list \<Rightarrow> Option \<Rightarrow> Option" where
  "without us (ExcludeTasks ts) = ExcludeTasks (filter (\<lambda>t. t \<notin> set us) ts)"
| "without us (ArtifactsPath a) = ArtifactsPath a"

text \<open>Two worlds and a set of versions to run the definitions on.\<close>

definition quiet_world :: world where
  "quiet_world = \<lparr>stat_err = (\<lambda>p. None), mkdirAll_err = (\<lambda>p m. None)\<rparr>"

definition bare_world :: world where
  "bare_world =
     \<lparr>stat_err = (\<lambda>p. Some ''no such file or directory''),
      mkdirAll_err = (\<lambda>p m. Some ''permission denied'')\<rparr>"

definition pinned :: versions where
  "pinned = \<lparr>verGolangCILint = ''v1.61.0'', verGoPrettier = ''v0.2.2'', verGoYamllint = ''v1.35.1''\<rparr>"

section \<open>Facts about the collaborators\<close>

lemma join_build: "filepath_Join [''build'', ''go.mod''] = ''build/go.mod''"
  by (simp add: filepath_Clean_def)

lemma join_dist: "filepath_Join [''dist'', ''coverage.txt''] = ''dist/coverage.txt''"
  by (simp add: filepath_Clean_def)

lemma join_out: "filepath_Join [''out'', ''coverage.txt''] = ''out/coverage.txt''"
  by (simp add: filepath_Clean_def)

lemma and_then_Inr: "and_then (Inr x) f = f x"
  by (simp add: and_then_def)

lemma Define_ok:
  assumes "Name t \<noteq> []" "\<not> isDefined (Name t) s" "\<forall>d\<in>set (Deps t). isDefined d s"
  shows "Define t s = Inr (Name t, s\<lparr>tasks := tasks s @ [t]\<rparr>)"
proof -
  have "filter (\<lambda>d. \<not> isDefined d s) (Deps t) = []"
    using assms(3) by (simp add: filter_empty_conv)
  then show ?thesis using assms(1,2) by (simp add: Define_def)
qed

section \<open>One guarded statement\<close>

lemma unless_excluded_format:
  assumes "Name t = n" "n \<noteq> []" "Deps t = []" "excluded conf n \<or> \<not> isDefined n s"
  shows "unless_excluded conf n RegisterFormatTask t s =
     Inr (s\<lparr>tasks := tasks s @ (if excluded conf n then [] else [t]),
            formatTasks := formatTasks s @ (if excluded conf n then [] else [n])\<rparr>)"
proof (cases "excluded conf n")
  case True
  then show ?thesis by (simp add: unless_excluded_def)
next
  case False
  with assms have "Define t s = Inr (n, s\<lparr>tasks := tasks s @ [t]\<rparr>)"
    using Define_ok [of t s] by simp
  with False show ?thesis
    by (simp add: unless_excluded_def and_then_Inr RegisterFormatTask_def)
qed

lemma unless_excluded_lint:
  assumes "Name t = n" "n \<noteq> []" "Deps t = []" "excluded conf n \<or> \<not> isDefined n s"
  shows "unless_excluded conf n RegisterLintTask t s =
     Inr (s\<lparr>tasks := tasks s @ (if excluded conf n then [] else [t]),
            lintTasks := lintTasks s @ (if excluded conf n then [] else [n])\<rparr>)"
proof (cases "excluded conf n")
  case True
  then show ?thesis by (simp add: unless_excluded_def)
next
  case False
  with assms have "Define t s = Inr (n, s\<lparr>tasks := tasks s @ [t]\<rparr>)"
    using Define_ok [of t s] by simp
  with False show ?thesis
    by (simp add: unless_excluded_def and_then_Inr RegisterLintTask_def)
qed

lemmas task_defs =
  task_format_go_def task_lint_go_def task_format_markdown_def task_lint_markdown_def
  task_format_yaml_def task_lint_yaml_def task_format_def task_lint_def task_generate_def
  task_test_def task_check_def

lemma task_names:
  "Name (task_format_go v ts) = ''format-go''"
  "Name (task_lint_go v ts) = ''lint-go''"
  "Name (task_format_markdown v) = ''format-markdown''"
  "Name (task_lint_markdown v) = ''lint-markdown''"
  "Name (task_format_yaml v) = ''format-yaml''"
  "Name (task_lint_yaml v) = ''lint-yaml''"
  "Name (task_format ds) = ''format''"
  "Name (task_lint ds) = ''lint''"
  "Name (task_generate ds) = ''generate''"
  "Name (task_test conf) = ''test''"
  "Name (task_check l t) = ''check''"
  by (simp_all add: task_defs)

lemma task_deps:
  "Deps (task_format_go v ts) = []"
  "Deps (task_lint_go v ts) = []"
  "Deps (task_format_markdown v) = []"
  "Deps (task_lint_markdown v) = []"
  "Deps (task_format_yaml v) = []"
  "Deps (task_lint_yaml v) = []"
  "Deps (task_format ds) = ds"
  "Deps (task_lint ds) = ds"
  "Deps (task_generate ds) = ds"
  "Deps (task_test conf) = []"
  "Deps (task_check l t) = [l, t]"
  by (simp_all add: task_defs)

lemma isDefined_has_name: "isDefined m s = has_name m (tasks s)"
  by (simp add: isDefined_def has_name_def)

lemma has_name_simps:
  "has_name m (xs @ ys) = (has_name m xs \<or> has_name m ys)"
  "has_name m (if b then [] else [t]) = (\<not> b \<and> m = Name t)"
  "has_name m (t # ts) = (m = Name t \<or> has_name m ts)"
  "has_name m [] = False"
  by (auto simp: has_name_def)

lemma in_set_if: "(m \<in> set (if b then [] else [n])) = (\<not> b \<and> m = n)"
  by auto

lemma filter_Cons_append:
  "filter (\<lambda>x. \<not> P x) (x # xs) = (if P x then [] else [x]) @ filter (\<lambda>x. \<not> P x) xs"
  by simp

section \<open>The whole registration\<close>

lemma DefineTasks_conf_run:
  assumes "can_define conf s0"
  shows "DefineTasks_conf w v conf s0 =
     Inr (s0\<lparr>tasks := tasks s0
                 @ filter (\<lambda>t. \<not> excluded conf (Name t))
                     (leaf_tasks v (golangciTargets (stat_err w ''build/go.mod'')))
                 @ [task_format (formatTasks s0 @ kept conf format_leaves),
                    task_lint (lintTasks s0 @ kept conf lint_leaves),
                    task_generate (generateTasks s0), task_test conf,
                    task_check ''lint'' ''test''],
          formatTasks := formatTasks s0 @ kept conf format_leaves,
          lintTasks := lintTasks s0 @ kept conf lint_leaves,
          syscalls := syscalls s0 @ [Stat ''build/go.mod'']\<rparr>)"
  using assms
  unfolding DefineTasks_conf_def join_build os_Stat_def Let_def prod.case can_define_def
    format_leaves_def lint_leaves_def meta_names_def leaf_tasks_def kept_def filter_Cons_append
  by (simp add: unless_excluded_format unless_excluded_lint Define_ok and_then_Inr
      task_names task_deps isDefined_has_name has_name_simps in_set_if
      list_all_iff ball_Un
      split del: if_split)

text \<open>
  A second registration in the same process panics at its first definition: the
  name is taken.
\<close>

lemma second_call_panics:
  assumes "isDefined ''format-go'' s" "\<not> excluded (resolveConfig opts) ''format-go''"
  shows "DefineTasks w v opts s = Inl (AlreadyDefined ''format-go'')"
proof -
  have "unless_excluded (resolveConfig opts) ''format-go'' RegisterFormatTask
          (task_format_go v ts) (s\<lparr>syscalls := cs\<rparr>) = Inl (AlreadyDefined ''format-go'')" for ts cs
    using assms
    by (simp add: unless_excluded_def Define_def and_then_def isDefined_def task_format_go_def)
  then show ?thesis
    by (simp add: DefineTasks_def DefineTasks_conf_def os_Stat_def and_then_def)
qed

lemma can_define_initial: "can_define conf initial"
  by (simp add: can_define_def initial_def isDefined_def list_all_iff)

text \<open>From the initial state every option list registers, with this outcome.\<close>

lemma DefineTasks_initial:
  "\<exists>s. DefineTasks w v opts initial = Inr s
     \<and> tasks s = filter (\<lambda>t. \<not> excluded (resolveConfig opts) (Name t))
                    (leaf_tasks v (golangciTargets (stat_err w ''build/go.mod'')))
                  @ [task_format (kept (resolveConfig opts) format_leaves),
                     task_lint (kept (resolveConfig opts) lint_leaves),
                     task_generate [], task_test (resolveConfig opts),
                     task_check ''lint'' ''test'']
     \<and> formatTasks s = kept (resolveConfig opts) format_leaves
     \<and> lintTasks s = kept (resolveConfig opts) lint_leaves
     \<and> generateTasks s = []
     \<and> syscalls s = [Stat ''build/go.mod'']"
  unfolding DefineTasks_def
  by (simp add: DefineTasks_conf_run [OF can_define_initial]) (simp add: initial_def)

section \<open>Looking tasks up in the outcome\<close>

lemma find_append_case:
  "find P (xs @ ys) = (case find P xs of None \<Rightarrow> find P ys | Some x \<Rightarrow> Some x)"
  by (induction xs) simp_all

lemma find_filter_conj: "find P (filter Q xs) = find (\<lambda>x. Q x \<and> P x) xs"
  by (induction xs) simp_all

lemma lookup_meta:
  assumes "tasks s = filter (\<lambda>t. \<not> excluded conf (Name t)) (leaf_tasks v ts)
                       @ [task_format fs, task_lint ls, task_generate gs, task_test conf,
                          task_check ''lint'' ''test'']"
  shows "lookup ''format'' s = Some (task_format fs)"
    and "lookup ''lint'' s = Some (task_lint ls)"
    and "lookup ''generate'' s = Some (task_generate gs)"
    and "lookup ''test'' s = Some (task_test conf)"
    and "lookup ''check'' s = Some (task_check ''lint'' ''test'')"
  by (simp_all add: lookup_def assms find_append_case find_filter_conj leaf_tasks_def task_names)

lemma lookup_leaf:
  assumes "tasks s = filter (\<lambda>t. \<not> excluded conf (Name t)) (leaf_tasks v ts)
                       @ [task_format fs, task_lint ls, task_generate gs, task_test conf,
                          task_check ''lint'' ''test'']"
  shows "lookup ''format-go'' s = (if excluded conf ''format-go'' then None else Some (task_format_go v ts))"
    and "lookup ''lint-go'' s = (if excluded conf ''lint-go'' then None else Some (task_lint_go v ts))"
    and "lookup ''format-markdown'' s = (if excluded conf ''format-markdown'' then None else Some (task_format_markdown v))"
    and "lookup ''lint-markdown'' s = (if excluded conf ''lint-markdown'' then None else Some (task_lint_markdown v))"
    and "lookup ''format-yaml'' s = (if excluded conf ''format-yaml'' then None else Some (task_format_yaml v))"
    and "lookup ''lint-yaml'' s = (if excluded conf ''lint-yaml'' then None else Some (task_lint_yaml v))"
  by (simp_all add: lookup_def assms find_append_case find_filter_conj leaf_tasks_def task_names)

lemma names_outcome:
  assumes "tasks s = filter (\<lambda>t. \<not> excluded conf (Name t)) (leaf_tasks v ts)
                       @ [task_format fs, task_lint ls, task_generate gs, task_test conf,
                          task_check ''lint'' ''test'']"
  shows "map Name (tasks s) = kept conf catalog @ meta_names"
  unfolding assms kept_def catalog_def meta_names_def leaf_tasks_def filter_Cons_append
  by (simp add: task_names if_distrib [of "map Name"] split del: if_split cong: if_cong)

section \<open>Configuration and options\<close>

lemma resolveConfig_snoc:
  "resolveConfig (opts @ [opt]) = apply_opt opt (resolveConfig opts)"
  by (simp add: resolveConfig_def)

lemma foldl_apply_closed:
  "foldl (\<lambda>c opt. apply_opt opt c) c opts =
     c\<lparr>artifactsPath := last (artifactsPath c # concat (map paths_of opts)),
       excludeTasks := excludeTasks c @ concat (map names_of opts)\<rparr>"
proof (induction opts arbitrary: c)
  case Nil
  show ?case by simp
next
  case (Cons opt opts)
  show ?case by (cases opt) (simp_all add: Cons.IH)
qed

lemma resolveConfig_closed:
  "resolveConfig opts =
     \<lparr>artifactsPath = last (''out'' # concat (map paths_of opts)),
      excludeTasks = concat (map names_of opts)\<rparr>"
  by (simp add: resolveConfig_def foldl_apply_closed)

lemma names_of_ExcludeTasks: "n \<in> set (names_of opt) \<Longrightarrow> opt = ExcludeTasks (names_of opt)"
  by (cases opt) simp_all

lemma paths_of_no_path: "\<forall>q. opt \<noteq> ArtifactsPath q \<Longrightarrow> paths_of opt = []"
  by (cases opt) simp_all

lemma excluded_resolveConfig:
  "excluded (resolveConfig opts) n = (\<exists>ts. ExcludeTasks ts \<in> set opts \<and> n \<in> set ts)"
proof -
  have "(\<exists>opt\<in>set opts. n \<in> set (names_of opt)) = (\<exists>ts. ExcludeTasks ts \<in> set opts \<and> n \<in> set ts)"
  proof
    assume "\<exists>opt\<in>set opts. n \<in> set (names_of opt)"
    then obtain opt where opt: "opt \<in> set opts" "n \<in> set (names_of opt)" by blast
    then show "\<exists>ts. ExcludeTasks ts \<in> set opts \<and> n \<in> set ts"
      using names_of_ExcludeTasks [of n opt] by metis
  next
    assume "\<exists>ts. ExcludeTasks ts \<in> set opts \<and> n \<in> set ts"
    then obtain ts where "ExcludeTasks ts \<in> set opts" "n \<in> set ts" by blast
    then have "ExcludeTasks ts \<in> set opts \<and> n \<in> set (names_of (ExcludeTasks ts))" by simp
    then show "\<exists>opt\<in>set opts. n \<in> set (names_of opt)" by blast
  qed
  then show ?thesis by (simp add: excluded_def resolveConfig_closed)
qed

text \<open>
  C10. Each option variant changes only its own field of the configuration: a path
  option leaves the exclusions as they are, an exclusion option leaves the path as
  it is, and the two commute.
\<close>

theorem option_frame_and_commute:
  "excludeTasks (apply_opt (ArtifactsPath p) c) = excludeTasks c
   \<and> artifactsPath (apply_opt (ExcludeTasks ts) c) = artifactsPath c
   \<and> apply_opt (ArtifactsPath p) (apply_opt (ExcludeTasks ts) c)
       = apply_opt (ExcludeTasks ts) (apply_opt (ArtifactsPath p) c)"
  by simp

theorem option_frame_and_commute_witness:
  "resolveConfig [ArtifactsPath ''dist'', ExcludeTasks [''lint-go'']]
     = resolveConfig [ExcludeTasks [''lint-go''], ArtifactsPath ''dist'']
   \<and> resolveConfig [ArtifactsPath ''dist'', ExcludeTasks [''lint-go'']]
     = \<lparr>artifactsPath = ''dist'', excludeTasks = [''lint-go'']\<rparr>"
  using option_frame_and_commute
    [of "''dist''" "\<lparr>artifactsPath = ''out'', excludeTasks = []\<rparr>" "[''lint-go'']"]
  by (simp add: resolveConfig_def)



text \<open>
  C6. Options are applied one after the other in the order given. A path option
  overwrites the path whatever it was, so the last path option wins. An exclusion
  option adds its names to the excluded ones: a name is excluded exactly when some
  exclusion option names it, and repeating names, within an option or by repeating
  the option, does not change which names are excluded.
\<close>

theorem options_in_order:
  "resolveConfig (opts @ [opt]) = apply_opt opt (resolveConfig opts)
   \<and> artifactsPath (apply_opt (ArtifactsPath p) c) = p
   \<and> ((\<forall>q. ArtifactsPath q \<notin> set rest) \<longrightarrow>
        artifactsPath (resolveConfig (opts @ [ArtifactsPath p] @ rest)) = p)
   \<and> (excluded (apply_opt (ExcludeTasks ts) c) n = (n \<in> set ts \<or> excluded c n))
   \<and> (excluded (resolveConfig opts) n = (\<exists>ts. ExcludeTasks ts \<in> set opts \<and> n \<in> set ts))
   \<and> (set ts = set us \<longrightarrow>
        excluded (apply_opt (ExcludeTasks ts) c) = excluded (apply_opt (ExcludeTasks us) c))
   \<and> excluded (apply_opt (ExcludeTasks ts) (apply_opt (ExcludeTasks ts) c))
       = excluded (apply_opt (ExcludeTasks ts) c)"
proof -
  have last_path: "artifactsPath (resolveConfig (opts @ [ArtifactsPath p] @ rest)) = p"
    if "\<forall>q. ArtifactsPath q \<notin> set rest"
  proof -
    have "paths_of opt = []" if "opt \<in> set rest" for opt
      using that \<open>\<forall>q. ArtifactsPath q \<notin> set rest\<close> paths_of_no_path [of opt] by metis
    then have "concat (map paths_of rest) = []" by simp
    then show ?thesis by (simp add: resolveConfig_closed)
  qed
  have union: "excluded (apply_opt (ExcludeTasks ts) c) n = (n \<in> set ts \<or> excluded c n)"
    for ts c n
    by (auto simp: excluded_def)
  have same: "excluded (apply_opt (ExcludeTasks ts) c) = excluded (apply_opt (ExcludeTasks us) c)"
    if "set ts = set us"
    using that by (intro ext) (simp add: excluded_def)
  have twice: "excluded (apply_opt (ExcludeTasks ts) (apply_opt (ExcludeTasks ts) c))
       = excluded (apply_opt (ExcludeTasks ts) c)"
    by (intro ext) (auto simp: excluded_def)
  show ?thesis
    using last_path same twice
    by (simp add: resolveConfig_snoc excluded_resolveConfig) (auto simp: excluded_def)
qed

theorem options_in_order_witness:
  "(\<forall>q. ArtifactsPath q \<notin> set [ExcludeTasks [''lint-go'', ''lint-go'']])
   \<and> artifactsPath (resolveConfig
        ([ArtifactsPath ''a''] @ [ArtifactsPath ''dist''] @ [ExcludeTasks [''lint-go'', ''lint-go'']]))
       = ''dist''
   \<and> set [''lint-go'', ''lint-go''] = set [''lint-go'']
   \<and> excluded (apply_opt (ExcludeTasks [''lint-go'', ''lint-go'']) (resolveConfig []))
       = excluded (apply_opt (ExcludeTasks [''lint-go'']) (resolveConfig []))"
  using options_in_order
    [of "[ArtifactsPath ''a'']" "ArtifactsPath ''dist''" "''dist''" "resolveConfig []"
        "[ExcludeTasks [''lint-go'', ''lint-go'']]" "[''lint-go'', ''lint-go'']" "''lint-go''"
        "[''lint-go'']"]
  by simp

section \<open>What registration reads of the configuration\<close>

lemma test_action_path:
  "artifactsPath c = artifactsPath c' \<Longrightarrow> test_action c = test_action c'"
  by (intro ext) (simp add: test_action_def split: option.splits)

lemma DefineTasks_conf_cong:
  assumes path: "artifactsPath c = artifactsPath c'"
    and excl: "\<forall>n\<in>set catalog. excluded c n = excluded c' n"
  shows "DefineTasks_conf w v c s0 = DefineTasks_conf w v c' s0"
proof -
  have e: "excluded c ''format-go'' = excluded c' ''format-go''"
    "excluded c ''lint-go'' = excluded c' ''lint-go''"
    "excluded c ''format-markdown'' = excluded c' ''format-markdown''"
    "excluded c ''lint-markdown'' = excluded c' ''lint-markdown''"
    "excluded c ''format-yaml'' = excluded c' ''format-yaml''"
    "excluded c ''lint-yaml'' = excluded c' ''lint-yaml''"
    using excl by (simp_all add: catalog_def)
  have u: "unless_excluded c n = unless_excluded c' n" if "excluded c n = excluded c' n" for n
    using that by (intro ext) (simp add: unless_excluded_def)
  have t: "task_test c = task_test c'"
    by (simp add: task_test_def test_action_path [OF path])
  show ?thesis
    unfolding DefineTasks_conf_def u [OF e(1)] u [OF e(2)] u [OF e(3)] u [OF e(4)]
      u [OF e(5)] u [OF e(6)] t ..
qed

lemma paths_of_without: "paths_of (without us opt) = paths_of opt"
  by (cases opt) simp_all

lemma names_of_without: "names_of (without us opt) = filter (\<lambda>t. t \<notin> set us) (names_of opt)"
  by (cases opt) simp_all

lemma resolveConfig_without:
  "artifactsPath (resolveConfig (map (without us) opts)) = artifactsPath (resolveConfig opts)"
  "excluded (resolveConfig (map (without us) opts)) n
     = (n \<notin> set us \<and> excluded (resolveConfig opts) n)"
  by (auto simp: resolveConfig_closed excluded_def paths_of_without names_of_without o_def)

lemma resolveConfig_insert_exclusion:
  "artifactsPath (resolveConfig (xs @ ExcludeTasks ms # ys)) = artifactsPath (resolveConfig (xs @ ys))"
  "excluded (resolveConfig (xs @ ExcludeTasks ms # ys)) n
     = (n \<in> set ms \<or> excluded (resolveConfig (xs @ ys)) n)"
  by (auto simp: resolveConfig_closed excluded_def)

text \<open>
  C5. Names in the exclusions that are none of the six catalog names change nothing:
  with or without them, in the same option or in one of their own, registration
  does the same from every state, and from the initial state it does not panic.
\<close>

theorem unknown_names_ignored:
  assumes "set us \<inter> set catalog = {}"
  shows "DefineTasks w v (map (without us) opts) s0 = DefineTasks w v opts s0
    \<and> DefineTasks w v (xs @ ExcludeTasks us # ys) s0 = DefineTasks w v (xs @ ys) s0
    \<and> (\<exists>s. DefineTasks w v opts initial = Inr s)"
proof -
  have fresh: "n \<notin> set us" if "n \<in> set catalog" for n
    using that assms by blast
  have a: "DefineTasks w v (map (without us) opts) s0 = DefineTasks w v opts s0"
    unfolding DefineTasks_def
    by (rule DefineTasks_conf_cong) (simp_all add: resolveConfig_without fresh)
  have b: "DefineTasks w v (xs @ ExcludeTasks us # ys) s0 = DefineTasks w v (xs @ ys) s0"
    unfolding DefineTasks_def
    by (rule DefineTasks_conf_cong) (simp_all add: resolveConfig_insert_exclusion fresh)
  from DefineTasks_initial [of w v opts] have "\<exists>s. DefineTasks w v opts initial = Inr s"
    by blast
  with a b show ?thesis by simp
qed

theorem unknown_names_ignored_witness:
  "set [''lint-rust'', ''Format-Go''] \<inter> set catalog = {}
   \<and> DefineTasks quiet_world pinned [ExcludeTasks [''lint-go'']] initial
       = DefineTasks quiet_world pinned [ExcludeTasks [''lint-rust'', ''lint-go'', ''Format-Go'']] initial"
proof -
  have h: "set [''lint-rust'', ''Format-Go''] \<inter> set catalog = {}"
    by (simp add: catalog_def)
  from unknown_names_ignored [OF h, of quiet_world pinned
      "[ExcludeTasks [''lint-rust'', ''lint-go'', ''Format-Go'']]" initial]
  show ?thesis using h by simp
qed

text \<open>
  C9. Whatever the options, the five tasks \<open>format\<close>, \<open>lint\<close>, \<open>generate\<close>, \<open>test\<close>
  and \<open>check\<close> are registered, after the leaves that were kept, and an exclusion
  option that names only these five changes nothing.
\<close>

theorem meta_tasks_always_registered:
  "(\<exists>s. DefineTasks w v opts initial = Inr s
      \<and> map Name (tasks s) = kept (resolveConfig opts) catalog @ meta_names
      \<and> set meta_names \<subseteq> set (map Name (tasks s)))
   \<and> (set ms \<subseteq> set meta_names \<longrightarrow>
        DefineTasks w v (xs @ ExcludeTasks ms # ys) s0 = DefineTasks w v (xs @ ys) s0)"
proof -
  from DefineTasks_initial [of w v opts] obtain s where
    s: "DefineTasks w v opts initial = Inr s"
    and ts: "tasks s = filter (\<lambda>t. \<not> excluded (resolveConfig opts) (Name t))
                    (leaf_tasks v (golangciTargets (stat_err w ''build/go.mod'')))
                  @ [task_format (kept (resolveConfig opts) format_leaves),
                     task_lint (kept (resolveConfig opts) lint_leaves),
                     task_generate [], task_test (resolveConfig opts),
                     task_check ''lint'' ''test'']"
    by blast
  have names: "map Name (tasks s) = kept (resolveConfig opts) catalog @ meta_names"
    by (rule names_outcome [OF ts])
  have first: "\<exists>s. DefineTasks w v opts initial = Inr s
      \<and> map Name (tasks s) = kept (resolveConfig opts) catalog @ meta_names
      \<and> set meta_names \<subseteq> set (map Name (tasks s))"
    using s names by (intro exI [of _ s]) simp
  have second: "DefineTasks w v (xs @ ExcludeTasks ms # ys) s0 = DefineTasks w v (xs @ ys) s0"
    if "set ms \<subseteq> set meta_names"
  proof -
    have "n \<notin> set ms" if "n \<in> set catalog" for n
      using that \<open>set ms \<subseteq> set meta_names\<close> by (auto simp: catalog_def meta_names_def)
    then show ?thesis
      unfolding DefineTasks_def
      by (intro DefineTasks_conf_cong) (simp_all add: resolveConfig_insert_exclusion)
  qed
  from first second show ?thesis by blast
qed

theorem meta_tasks_always_registered_witness:
  "set [''format'', ''lint'', ''generate'', ''test'', ''check''] \<subseteq> set meta_names
   \<and> DefineTasks quiet_world pinned
        ([] @ ExcludeTasks [''format'', ''lint'', ''generate'', ''test'', ''check''] # []) initial
       = DefineTasks quiet_world pinned ([] @ []) initial
   \<and> (\<exists>s. DefineTasks quiet_world pinned
              [ExcludeTasks [''format'', ''lint'', ''generate'', ''test'', ''check'']] initial = Inr s
        \<and> map Name (tasks s) =
            [''format-go'', ''lint-go'', ''format-markdown'', ''lint-markdown'', ''format-yaml'',
             ''lint-yaml'', ''format'', ''lint'', ''generate'', ''test'', ''check''])"
proof -
  let ?ms = "[''format'', ''lint'', ''generate'', ''test'', ''check'']"
  have h: "set ?ms \<subseteq> set meta_names"
    by (simp add: meta_names_def)
  have k: "kept (resolveConfig [ExcludeTasks ?ms]) catalog @ meta_names =
            [''format-go'', ''lint-go'', ''format-markdown'', ''lint-markdown'', ''format-yaml'',
             ''lint-yaml'', ''format'', ''lint'', ''generate'', ''test'', ''check'']"
    by (simp add: kept_def catalog_def meta_names_def excluded_def resolveConfig_def)
  note inst = meta_tasks_always_registered [of quiet_world pinned "[ExcludeTasks ?ms]" ?ms "[]" "[]" initial]
  from inst have "\<exists>s. DefineTasks quiet_world pinned [ExcludeTasks ?ms] initial = Inr s
      \<and> map Name (tasks s) = kept (resolveConfig [ExcludeTasks ?ms]) catalog @ meta_names
      \<and> set meta_names \<subseteq> set (map Name (tasks s))"
    by (rule conjunct1)
  then obtain s where
    a: "DefineTasks quiet_world pinned [ExcludeTasks ?ms] initial = Inr s" and
    b: "map Name (tasks s) = kept (resolveConfig [ExcludeTasks ?ms]) catalog @ meta_names"
    by (elim exE conjE)
  have first: "\<exists>s. DefineTasks quiet_world pinned [ExcludeTasks ?ms] initial = Inr s
        \<and> map Name (tasks s) =
            [''format-go'', ''lint-go'', ''format-markdown'', ''lint-markdown'', ''format-yaml'',
             ''lint-yaml'', ''format'', ''lint'', ''generate'', ''test'', ''check'']"
    by (rule exI [of _ s]) (rule conjI [OF a b [unfolded k]])
  from inst have "set ?ms \<subseteq> set meta_names \<longrightarrow>
      DefineTasks quiet_world pinned ([] @ ExcludeTasks ?ms # []) initial
       = DefineTasks quiet_world pinned ([] @ []) initial"
    by (rule conjunct2)
  then have second: "DefineTasks quiet_world pinned ([] @ ExcludeTasks ?ms # []) initial
       = DefineTasks quiet_world pinned ([] @ []) initial"
    using h by (rule mp)
  show ?thesis
    by (intro conjI h second first)
qed

section \<open>The outcome from the initial state\<close>

text \<open>
  C2. With no options, registration from the initial state defines the six leaves
  and then \<open>format\<close>, \<open>lint\<close>, \<open>generate\<close>, \<open>test\<close> and \<open>check\<close>, and nothing else;
  \<open>format\<close> depends on the three format leaves and \<open>check\<close> on \<open>lint\<close> and \<open>test\<close>.
\<close>

theorem no_options_registers_all:
  "\<exists>s. DefineTasks w v [] initial = Inr s
     \<and> map Name (tasks s) =
         [''format-go'', ''lint-go'', ''format-markdown'', ''lint-markdown'', ''format-yaml'',
          ''lint-yaml'', ''format'', ''lint'', ''generate'', ''test'', ''check'']
     \<and> map_option Deps (lookup ''format'' s)
         = Some [''format-go'', ''format-markdown'', ''format-yaml'']
     \<and> map_option Deps (lookup ''check'' s) = Some [''lint'', ''test'']"
proof -
  from DefineTasks_initial [of w v "[]"] obtain s where
    s: "DefineTasks w v [] initial = Inr s"
    and ts: "tasks s = filter (\<lambda>t. \<not> excluded (resolveConfig []) (Name t))
                    (leaf_tasks v (golangciTargets (stat_err w ''build/go.mod'')))
                  @ [task_format (kept (resolveConfig []) format_leaves),
                     task_lint (kept (resolveConfig []) lint_leaves),
                     task_generate [], task_test (resolveConfig []),
                     task_check ''lint'' ''test'']"
    by (elim exE conjE)
  have none: "excluded (resolveConfig []) n = False" for n
    by (simp add: excluded_def resolveConfig_def)
  have names: "map Name (tasks s) =
         [''format-go'', ''lint-go'', ''format-markdown'', ''lint-markdown'', ''format-yaml'',
          ''lint-yaml'', ''format'', ''lint'', ''generate'', ''test'', ''check'']"
    unfolding names_outcome [OF ts] by (simp add: kept_def none catalog_def meta_names_def)
  have fmt: "map_option Deps (lookup ''format'' s)
         = Some [''format-go'', ''format-markdown'', ''format-yaml'']"
    unfolding lookup_meta(1) [OF ts] by (simp add: task_deps kept_def none format_leaves_def)
  have chk: "map_option Deps (lookup ''check'' s) = Some [''lint'', ''test'']"
    unfolding lookup_meta(5) [OF ts] by (simp add: task_deps)
  show ?thesis
    by (rule exI [of _ s]) (intro conjI s names fmt chk)
qed

theorem no_options_registers_all_witness:
  "\<exists>s. DefineTasks quiet_world pinned [] initial = Inr s
     \<and> map Name (tasks s) =
         [''format-go'', ''lint-go'', ''format-markdown'', ''lint-markdown'', ''format-yaml'',
          ''lint-yaml'', ''format'', ''lint'', ''generate'', ''test'', ''check'']
     \<and> map_option Deps (lookup ''format'' s)
         = Some [''format-go'', ''format-markdown'', ''format-yaml'']
     \<and> map_option Deps (lookup ''check'' s) = Some [''lint'', ''test'']"
  by (rule no_options_registers_all [of quiet_world pinned])

text \<open>
  C1. Let \<open>n\<close> be one of the six catalog names. Registration from the initial state
  succeeds, and if some exclusion option names \<open>n\<close> then no task \<open>n\<close> is registered
  and \<open>n\<close> is in neither bucket. The buckets hold exactly the leaves of their family
  that were not excluded, in catalog order, and they are the dependency lists of
  \<open>format\<close> and \<open>lint\<close>; so \<open>n\<close> is in its bucket if and only if it was not excluded.
\<close>

theorem excluded_leaf_not_registered:
  assumes "n \<in> set catalog"
  shows "\<exists>s. DefineTasks w v opts initial = Inr s
     \<and> ((\<exists>ts. ExcludeTasks ts \<in> set opts \<and> n \<in> set ts) \<longrightarrow>
          lookup n s = None \<and> n \<notin> set (map Name (tasks s))
          \<and> n \<notin> set (formatTasks s) \<and> n \<notin> set (lintTasks s))
     \<and> formatTasks s = filter (\<lambda>m. \<not> excluded (resolveConfig opts) m) format_leaves
     \<and> lintTasks s = filter (\<lambda>m. \<not> excluded (resolveConfig opts) m) lint_leaves
     \<and> map_option Deps (lookup ''format'' s) = Some (formatTasks s)
     \<and> map_option Deps (lookup ''lint'' s) = Some (lintTasks s)
     \<and> (n \<in> set (formatTasks s @ lintTasks s)
          = (\<not> (\<exists>ts. ExcludeTasks ts \<in> set opts \<and> n \<in> set ts)))
     \<and> (n \<in> set (map Name (tasks s))
          = (\<not> (\<exists>ts. ExcludeTasks ts \<in> set opts \<and> n \<in> set ts)))"
proof -
  let ?c = "resolveConfig opts"
  from DefineTasks_initial [of w v opts] obtain s where
    s: "DefineTasks w v opts initial = Inr s"
    and ts: "tasks s = filter (\<lambda>t. \<not> excluded ?c (Name t))
                    (leaf_tasks v (golangciTargets (stat_err w ''build/go.mod'')))
                  @ [task_format (kept ?c format_leaves), task_lint (kept ?c lint_leaves),
                     task_generate [], task_test ?c, task_check ''lint'' ''test'']"
    and fs: "formatTasks s = kept ?c format_leaves"
    and ls: "lintTasks s = kept ?c lint_leaves"
    by (elim exE conjE)
  have ex: "(\<exists>ts. ExcludeTasks ts \<in> set opts \<and> n \<in> set ts) = excluded ?c n"
    by (simp add: excluded_resolveConfig)
  have names: "map Name (tasks s) = kept ?c catalog @ meta_names"
    by (rule names_outcome [OF ts])
  have not_meta: "n \<notin> set meta_names"
    using assms by (auto simp: catalog_def meta_names_def)
  have in_names: "(n \<in> set (map Name (tasks s))) = (\<not> excluded ?c n)"
    unfolding names using assms not_meta by (simp add: kept_def)
  have family: "n \<in> set format_leaves \<or> n \<in> set lint_leaves"
    using assms by (auto simp: catalog_def format_leaves_def lint_leaves_def)
  have in_buckets: "(n \<in> set (formatTasks s @ lintTasks s)) = (\<not> excluded ?c n)"
    unfolding fs ls using family by (auto simp: kept_def)
  have no_lookup: "lookup n s = None" if "excluded ?c n"
  proof -
    have "n \<notin> set (map Name (tasks s))" using that in_names by simp
    then show ?thesis by (auto simp: lookup_def find_None_iff)
  qed
  have fd: "map_option Deps (lookup ''format'' s) = Some (formatTasks s)"
    unfolding lookup_meta(1) [OF ts] fs by (simp add: task_deps)
  have ld: "map_option Deps (lookup ''lint'' s) = Some (lintTasks s)"
    unfolding lookup_meta(2) [OF ts] ls by (simp add: task_deps)
  have absent: "(\<exists>ts. ExcludeTasks ts \<in> set opts \<and> n \<in> set ts) \<longrightarrow>
          lookup n s = None \<and> n \<notin> set (map Name (tasks s))
          \<and> n \<notin> set (formatTasks s) \<and> n \<notin> set (lintTasks s)"
    unfolding ex using no_lookup in_names in_buckets by auto
  show ?thesis
    apply (rule exI [of _ s])
    apply (intro conjI s absent fd ld)
    subgoal by (simp add: fs kept_def)
    subgoal by (simp add: ls kept_def)
    subgoal unfolding ex by (rule in_buckets)
    subgoal unfolding ex by (rule in_names)
    done
qed

theorem excluded_leaf_not_registered_witness:
  "''format-yaml'' \<in> set catalog
   \<and> ExcludeTasks [''lint-markdown'', ''format-yaml'']
        \<in> set [ExcludeTasks [''lint-markdown'', ''format-yaml'']]
   \<and> ''format-yaml'' \<in> set [''lint-markdown'', ''format-yaml'']
   \<and> (\<exists>s. DefineTasks quiet_world pinned [ExcludeTasks [''lint-markdown'', ''format-yaml'']] initial
              = Inr s
        \<and> lookup ''format-yaml'' s = None
        \<and> map_option Deps (lookup ''format'' s) = Some [''format-go'', ''format-markdown'']
        \<and> map_option Deps (lookup ''lint'' s) = Some [''lint-go'', ''lint-yaml''])"
proof -
  let ?opts = "[ExcludeTasks [''lint-markdown'', ''format-yaml'']]"
  have c: "''format-yaml'' \<in> set catalog"
    by (simp add: catalog_def)
  have named: "\<exists>ts. ExcludeTasks ts \<in> set ?opts \<and> ''format-yaml'' \<in> set ts"
    by (rule exI [of _ "[''lint-markdown'', ''format-yaml'']"]) simp
  have f: "filter (\<lambda>m. \<not> excluded (resolveConfig ?opts) m) format_leaves
             = [''format-go'', ''format-markdown'']"
    by (simp add: excluded_def resolveConfig_def format_leaves_def)
  have l: "filter (\<lambda>m. \<not> excluded (resolveConfig ?opts) m) lint_leaves
             = [''lint-go'', ''lint-yaml'']"
    by (simp add: excluded_def resolveConfig_def lint_leaves_def)
  from excluded_leaf_not_registered [OF c, of quiet_world pinned ?opts] obtain s where
    s: "DefineTasks quiet_world pinned ?opts initial = Inr s"
    and absent: "(\<exists>ts. ExcludeTasks ts \<in> set ?opts \<and> ''format-yaml'' \<in> set ts) \<longrightarrow>
          lookup ''format-yaml'' s = None \<and> ''format-yaml'' \<notin> set (map Name (tasks s))
          \<and> ''format-yaml'' \<notin> set (formatTasks s) \<and> ''format-yaml'' \<notin> set (lintTasks s)"
    and fs: "formatTasks s = filter (\<lambda>m. \<not> excluded (resolveConfig ?opts) m) format_leaves"
    and ls: "lintTasks s = filter (\<lambda>m. \<not> excluded (resolveConfig ?opts) m) lint_leaves"
    and fd: "map_option Deps (lookup ''format'' s) = Some (formatTasks s)"
    and ld: "map_option Deps (lookup ''lint'' s) = Some (lintTasks s)"
    by (elim exE conjE)
  from absent named have gone: "lookup ''format-yaml'' s = None"
    by (elim impE conjE)
  have "\<exists>s. DefineTasks quiet_world pinned ?opts initial = Inr s
        \<and> lookup ''format-yaml'' s = None
        \<and> map_option Deps (lookup ''format'' s) = Some [''format-go'', ''format-markdown'']
        \<and> map_option Deps (lookup ''lint'' s) = Some [''lint-go'', ''lint-yaml'']"
    by (rule exI [of _ s]) (intro conjI s gone fd [unfolded fs f] ld [unfolded ls l])
  with c show ?thesis by simp
qed

section \<open>Actions of the registered tasks\<close>

lemma golangciTargets_cases:
  "golangciTargets None = [''./...'', ''./build'']"
  "golangciTargets (Some e) = [''./...'']"
  by (simp_all add: golangciTargets_def)

text \<open>
  C3. Registration probes \<open>build/go.mod\<close> once and makes no other file-system call.
  The target list is \<open>./...\<close> followed by \<open>./build\<close> when the probe succeeds and
  \<open>./...\<close> alone when it fails, and the commands of \<open>format-go\<close> and \<open>lint-go\<close>, when
  these are registered, both end in that list joined by spaces.
\<close>

theorem go_targets_follow_probe:
  "\<exists>s targets. DefineTasks w v opts initial = Inr s
     \<and> syscalls s = [Stat (filepath_Join [''build'', ''go.mod''])]
     \<and> (stat_err w (filepath_Join [''build'', ''go.mod'']) = None
          \<longrightarrow> targets = [''./...'', ''./build''])
     \<and> (stat_err w (filepath_Join [''build'', ''go.mod'']) \<noteq> None
          \<longrightarrow> targets = [''./...''])
     \<and> (\<not> excluded (resolveConfig opts) ''format-go'' \<longrightarrow>
          (\<exists>act. map_option Action (lookup ''format-go'' s) = Some (Some act)
             \<and> (\<forall>a. act a =
                  [Exec (''go run github.com/golangci/golangci-lint/cmd/golangci-lint@''
                     @ verGolangCILint v @ '' run --fix --timeout=20m ''
                     @ strings_Join targets '' '')])))
     \<and> (\<not> excluded (resolveConfig opts) ''lint-go'' \<longrightarrow>
          (\<exists>act. map_option Action (lookup ''lint-go'' s) = Some (Some act)
             \<and> (\<forall>a. act a =
                  [Exec (''go run github.com/golangci/golangci-lint/cmd/golangci-lint@''
                     @ verGolangCILint v @ '' run --timeout=20m ''
                     @ strings_Join targets '' '')])))"
proof -
  let ?c = "resolveConfig opts"
  let ?T = "golangciTargets (stat_err w ''build/go.mod'')"
  from DefineTasks_initial [of w v opts] obtain s where
    s: "DefineTasks w v opts initial = Inr s"
    and ts: "tasks s = filter (\<lambda>t. \<not> excluded ?c (Name t)) (leaf_tasks v ?T)
                  @ [task_format (kept ?c format_leaves), task_lint (kept ?c lint_leaves),
                     task_generate [], task_test ?c, task_check ''lint'' ''test'']"
    and sys: "syscalls s = [Stat ''build/go.mod'']"
    by (elim exE conjE)
  have t1: "stat_err w ''build/go.mod'' = None \<longrightarrow> ?T = [''./...'', ''./build'']"
    by (simp add: golangciTargets_def)
  have t2: "stat_err w ''build/go.mod'' \<noteq> None \<longrightarrow> ?T = [''./...'']"
    by (simp add: golangciTargets_def)
  have fg: "\<not> excluded ?c ''format-go'' \<longrightarrow>
          (\<exists>act. map_option Action (lookup ''format-go'' s) = Some (Some act)
             \<and> (\<forall>a. act a =
                  [Exec (''go run github.com/golangci/golangci-lint/cmd/golangci-lint@''
                     @ verGolangCILint v @ '' run --fix --timeout=20m ''
                     @ strings_Join ?T '' '')]))"
    unfolding lookup_leaf(1) [OF ts] by (simp add: task_format_go_def)
  have lg: "\<not> excluded ?c ''lint-go'' \<longrightarrow>
          (\<exists>act. map_option Action (lookup ''lint-go'' s) = Some (Some act)
             \<and> (\<forall>a. act a =
                  [Exec (''go run github.com/golangci/golangci-lint/cmd/golangci-lint@''
                     @ verGolangCILint v @ '' run --timeout=20m ''
                     @ strings_Join ?T '' '')]))"
    unfolding lookup_leaf(2) [OF ts] by (simp add: task_lint_go_def)
  show ?thesis
    unfolding join_build
    by (rule exI [of _ s], rule exI [of _ ?T]) (intro conjI s sys t1 t2 fg lg)
qed


theorem go_targets_follow_probe_witness:
  "(\<exists>s act. DefineTasks quiet_world pinned [] initial = Inr s
      \<and> syscalls s = [Stat ''build/go.mod'']
      \<and> map_option Action (lookup ''format-go'' s) = Some (Some act)
      \<and> act quiet_world =
          [Exec (''go run github.com/golangci/golangci-lint/cmd/golangci-lint@v1.61.0''
                 @ '' run --fix --timeout=20m ./... ./build'')])
   \<and> (\<exists>s act. DefineTasks bare_world pinned [] initial = Inr s
      \<and> syscalls s = [Stat ''build/go.mod'']
      \<and> map_option Action (lookup ''lint-go'' s) = Some (Some act)
      \<and> act quiet_world =
          [Exec (''go run github.com/golangci/golangci-lint/cmd/golangci-lint@v1.61.0''
                 @ '' run --timeout=20m ./...'')])"
proof -
  have kept_all: "\<not> excluded (resolveConfig []) n" for n
    by (simp add: excluded_def resolveConfig_def)
  have ver: "verGolangCILint pinned = ''v1.61.0''"
    by (simp add: pinned_def)
  have found: "stat_err quiet_world (filepath_Join [''build'', ''go.mod'']) = None"
    by (simp add: quiet_world_def)
  have missing: "stat_err bare_world (filepath_Join [''build'', ''go.mod'']) \<noteq> None"
    by (simp add: bare_world_def)
  from go_targets_follow_probe [of quiet_world pinned "[]"] obtain s targets where
    s: "DefineTasks quiet_world pinned [] initial = Inr s"
    and sys: "syscalls s = [Stat (filepath_Join [''build'', ''go.mod''])]"
    and t: "stat_err quiet_world (filepath_Join [''build'', ''go.mod'']) = None
          \<longrightarrow> targets = [''./...'', ''./build'']"
    and fg: "\<not> excluded (resolveConfig []) ''format-go'' \<longrightarrow>
          (\<exists>act. map_option Action (lookup ''format-go'' s) = Some (Some act)
             \<and> (\<forall>a. act a =
                  [Exec (''go run github.com/golangci/golangci-lint/cmd/golangci-lint@''
                     @ verGolangCILint pinned @ '' run --fix --timeout=20m ''
                     @ strings_Join targets '' '')]))"
    by (elim exE conjE)
  from t found have targets: "targets = [''./...'', ''./build'']"
    by (rule mp)
  from fg kept_all obtain act where
    act: "map_option Action (lookup ''format-go'' s) = Some (Some act)"
    and run: "\<forall>a. act a =
                  [Exec (''go run github.com/golangci/golangci-lint/cmd/golangci-lint@''
                     @ verGolangCILint pinned @ '' run --fix --timeout=20m ''
                     @ strings_Join targets '' '')]"
    by (elim impE exE conjE)
  have run_quiet: "act quiet_world =
          [Exec (''go run github.com/golangci/golangci-lint/cmd/golangci-lint@v1.61.0''
                 @ '' run --fix --timeout=20m ./... ./build'')]"
    by (simp add: run targets ver)
  have first: "\<exists>s act. DefineTasks quiet_world pinned [] initial = Inr s
      \<and> syscalls s = [Stat ''build/go.mod'']
      \<and> map_option Action (lookup ''format-go'' s) = Some (Some act)
      \<and> act quiet_world =
          [Exec (''go run github.com/golangci/golangci-lint/cmd/golangci-lint@v1.61.0''
                 @ '' run --fix --timeout=20m ./... ./build'')]"
    by (rule exI [of _ s], rule exI [of _ act])
      (intro conjI s sys [unfolded join_build] act run_quiet)
  from go_targets_follow_probe [of bare_world pinned "[]"] obtain s' targets' where
    s': "DefineTasks bare_world pinned [] initial = Inr s'"
    and sys': "syscalls s' = [Stat (filepath_Join [''build'', ''go.mod''])]"
    and t': "stat_err bare_world (filepath_Join [''build'', ''go.mod'']) \<noteq> None
          \<longrightarrow> targets' = [''./...'']"
    and lg: "\<not> excluded (resolveConfig []) ''lint-go'' \<longrightarrow>
          (\<exists>act. map_option Action (lookup ''lint-go'' s') = Some (Some act)
             \<and> (\<forall>a. act a =
                  [Exec (''go run github.com/golangci/golangci-lint/cmd/golangci-lint@''
                     @ verGolangCILint pinned @ '' run --timeout=20m ''
                     @ strings_Join targets' '' '')]))"
    by (elim exE conjE)
  from t' missing have targets': "targets' = [''./...'']"
    by (rule mp)
  from lg kept_all obtain act' where
    act': "map_option Action (lookup ''lint-go'' s') = Some (Some act')"
    and run': "\<forall>a. act' a =
                  [Exec (''go run github.com/golangci/golangci-lint/cmd/golangci-lint@''
                     @ verGolangCILint pinned @ '' run --timeout=20m ''
                     @ strings_Join targets' '' '')]"
    by (elim impE exE conjE)
  have run_bare: "act' quiet_world =
          [Exec (''go run github.com/golangci/golangci-lint/cmd/golangci-lint@v1.61.0''
                 @ '' run --timeout=20m ./...'')]"
    by (simp add: run' targets' ver)
  have second: "\<exists>s act. DefineTasks bare_world pinned [] initial = Inr s
      \<and> syscalls s = [Stat ''build/go.mod'']
      \<and> map_option Action (lookup ''lint-go'' s) = Some (Some act)
      \<and> act quiet_world =
          [Exec (''go run github.com/golangci/golangci-lint/cmd/golangci-lint@v1.61.0''
                 @ '' run --timeout=20m ./...'')]"
    by (rule exI [of _ s'], rule exI [of _ act'])
      (intro conjI s' sys' [unfolded join_build] act' run_bare)
  show ?thesis
    by (rule conjI [OF first second])
qed

text \<open>
  C4. The action of \<open>test\<close> first creates the artifacts directory, with all its
  parents, at the configured path. If that fails the action reports the failure
  with \<open>Errorf\<close> and ends there: no command is run and nothing else happens. If it
  succeeds the action runs the unit tests with the coverage profile at the path
  joined with \<open>coverage.txt\<close>; that is \<open>dist/coverage.txt\<close> for the path \<open>dist\<close> and
  \<open>out/coverage.txt\<close> by default.
\<close>

theorem test_action_creates_then_runs:
  "(\<exists>s act. DefineTasks w v opts initial = Inr s
      \<and> map_option Action (lookup ''test'' s) = Some (Some act)
      \<and> (\<forall>a e. mkdirAll_err a (artifactsPath (resolveConfig opts)) 493 = Some e \<longrightarrow>
            act a = [MkdirAll (artifactsPath (resolveConfig opts)) 493,
                     Errorf (''failed to create out directory: '' @ e)])
      \<and> (\<forall>a. mkdirAll_err a (artifactsPath (resolveConfig opts)) 493 = None \<longrightarrow>
            act a = [MkdirAll (artifactsPath (resolveConfig opts)) 493,
                     Exec (''go test -coverprofile=''
                       @ filepath_Join [artifactsPath (resolveConfig opts), ''coverage.txt'']
                       @ '' -covermode=atomic -v -timeout=20m ./...'')]))
   \<and> filepath_Join [artifactsPath (resolveConfig [ArtifactsPath ''dist'']), ''coverage.txt'']
       = ''dist/coverage.txt''
   \<and> filepath_Join [artifactsPath (resolveConfig []), ''coverage.txt''] = ''out/coverage.txt''"
proof -
  let ?c = "resolveConfig opts"
  from DefineTasks_initial [of w v opts] obtain s where
    s: "DefineTasks w v opts initial = Inr s"
    and ts: "tasks s = filter (\<lambda>t. \<not> excluded ?c (Name t))
                    (leaf_tasks v (golangciTargets (stat_err w ''build/go.mod'')))
                  @ [task_format (kept ?c format_leaves), task_lint (kept ?c lint_leaves),
                     task_generate [], task_test ?c, task_check ''lint'' ''test'']"
    by (elim exE conjE)
  have act: "map_option Action (lookup ''test'' s) = Some (Some (test_action ?c))"
    unfolding lookup_meta(4) [OF ts] by (simp add: task_test_def)
  have fails: "\<forall>a e. mkdirAll_err a (artifactsPath ?c) 493 = Some e \<longrightarrow>
            test_action ?c a = [MkdirAll (artifactsPath ?c) 493,
                     Errorf (''failed to create out directory: '' @ e)]"
    by (simp add: test_action_def)
  have runs: "\<forall>a. mkdirAll_err a (artifactsPath ?c) 493 = None \<longrightarrow>
            test_action ?c a = [MkdirAll (artifactsPath ?c) 493,
                     Exec (''go test -coverprofile=''
                       @ filepath_Join [artifactsPath ?c, ''coverage.txt'']
                       @ '' -covermode=atomic -v -timeout=20m ./...'')]"
    by (simp add: test_action_def)
  have general: "\<exists>s act. DefineTasks w v opts initial = Inr s
      \<and> map_option Action (lookup ''test'' s) = Some (Some act)
      \<and> (\<forall>a e. mkdirAll_err a (artifactsPath ?c) 493 = Some e \<longrightarrow>
            act a = [MkdirAll (artifactsPath ?c) 493,
                     Errorf (''failed to create out directory: '' @ e)])
      \<and> (\<forall>a. mkdirAll_err a (artifactsPath ?c) 493 = None \<longrightarrow>
            act a = [MkdirAll (artifactsPath ?c) 493,
                     Exec (''go test -coverprofile=''
                       @ filepath_Join [artifactsPath ?c, ''coverage.txt'']
                       @ '' -covermode=atomic -v -timeout=20m ./...'')])"
    by (rule exI [of _ s], rule exI [of _ "test_action ?c"]) (intro conjI s act fails runs)
  have dist: "filepath_Join [artifactsPath (resolveConfig [ArtifactsPath ''dist'']), ''coverage.txt'']
       = ''dist/coverage.txt''"
    by (simp add: resolveConfig_def filepath_Clean_def)
  have out: "filepath_Join [artifactsPath (resolveConfig []), ''coverage.txt''] = ''out/coverage.txt''"
    by (simp add: resolveConfig_def filepath_Clean_def)
  show ?thesis
    by (intro conjI general dist out)
qed

theorem test_action_creates_then_runs_witness:
  "mkdirAll_err quiet_world ''dist'' 493 = None
   \<and> mkdirAll_err bare_world ''dist'' 493 = Some ''permission denied''
   \<and> (\<exists>s act. DefineTasks quiet_world pinned [ArtifactsPath ''dist''] initial = Inr s
        \<and> map_option Action (lookup ''test'' s) = Some (Some act)
        \<and> act quiet_world =
            [MkdirAll ''dist'' 493,
             Exec ''go test -coverprofile=dist/coverage.txt -covermode=atomic -v -timeout=20m ./...'']
        \<and> act bare_world =
            [MkdirAll ''dist'' 493,
             Errorf ''failed to create out directory: permission denied''])"
proof -
  let ?opts = "[ArtifactsPath ''dist'']"
  have p: "artifactsPath (resolveConfig ?opts) = ''dist''"
    by (simp add: resolveConfig_def)
  have ok: "mkdirAll_err quiet_world ''dist'' 493 = None"
    by (simp add: quiet_world_def)
  have bad: "mkdirAll_err bare_world ''dist'' 493 = Some ''permission denied''"
    by (simp add: bare_world_def)
  note inst = test_action_creates_then_runs [of quiet_world pinned ?opts, unfolded p]
  from inst have "\<exists>s act. DefineTasks quiet_world pinned ?opts initial = Inr s
      \<and> map_option Action (lookup ''test'' s) = Some (Some act)
      \<and> (\<forall>a e. mkdirAll_err a ''dist'' 493 = Some e \<longrightarrow>
            act a = [MkdirAll ''dist'' 493, Errorf (''failed to create out directory: '' @ e)])
      \<and> (\<forall>a. mkdirAll_err a ''dist'' 493 = None \<longrightarrow>
            act a = [MkdirAll ''dist'' 493,
                     Exec (''go test -coverprofile='' @ filepath_Join [''dist'', ''coverage.txt'']
                       @ '' -covermode=atomic -v -timeout=20m ./...'')])"
    by (rule conjunct1)
  then obtain s act where
    s: "DefineTasks quiet_world pinned ?opts initial = Inr s"
    and act: "map_option Action (lookup ''test'' s) = Some (Some act)"
    and fails: "\<forall>a e. mkdirAll_err a ''dist'' 493 = Some e \<longrightarrow>
            act a = [MkdirAll ''dist'' 493, Errorf (''failed to create out directory: '' @ e)]"
    and runs: "\<forall>a. mkdirAll_err a ''dist'' 493 = None \<longrightarrow>
            act a = [MkdirAll ''dist'' 493,
                     Exec (''go test -coverprofile='' @ filepath_Join [''dist'', ''coverage.txt'']
                       @ '' -covermode=atomic -v -timeout=20m ./...'')]"
    by (elim exE conjE)
  from runs ok have "act quiet_world = [MkdirAll ''dist'' 493,
                     Exec (''go test -coverprofile='' @ filepath_Join [''dist'', ''coverage.txt'']
                       @ '' -covermode=atomic -v -timeout=20m ./...'')]"
    by (elim allE impE)
  then have r1: "act quiet_world =
            [MkdirAll ''dist'' 493,
             Exec ''go test -coverprofile=dist/coverage.txt -covermode=atomic -v -timeout=20m ./...'']"
    unfolding join_dist by simp
  from fails bad have "act bare_world = [MkdirAll ''dist'' 493,
      Errorf (''failed to create out directory: '' @ ''permission denied'')]"
    by (elim allE impE)
  then have r2: "act bare_world =
            [MkdirAll ''dist'' 493,
             Errorf ''failed to create out directory: permission denied'']"
    by simp
  have "\<exists>s act. DefineTasks quiet_world pinned ?opts initial = Inr s
        \<and> map_option Action (lookup ''test'' s) = Some (Some act)
        \<and> act quiet_world =
            [MkdirAll ''dist'' 493,
             Exec ''go test -coverprofile=dist/coverage.txt -covermode=atomic -v -timeout=20m ./...'']
        \<and> act bare_world =
            [MkdirAll ''dist'' 493,
             Errorf ''failed to create out directory: permission denied'']"
    by (rule exI [of _ s], rule exI [of _ act]) (intro conjI s act r1 r2)
  then show ?thesis
    by (intro conjI ok bad)
qed




end
